theory Spec2Isabelle
  imports Complex_Main "HOL-Library.Word"
begin

section \<open>The sample encoder of the capture pipeline\<close>

text \<open>
  The component \<open>TranscriptionApp\<close> exists twice in the repository: the current one
  captures audio with an AudioWorklet, the older one with a ScriptProcessor node. Both
  declare a function \<open>convertFloat32ToInt16\<close>:
  \<^verbatim>\<open>
  const convertFloat32ToInt16 = (buffer: Float32Array) => {
    const l = buffer.length;
    const buf = new Int16Array(l);
    for (let i = 0; i < l; i++) {
      buf[i] = Math.min(1, buffer[i]) * 0x7fff;
    }
    return buf.buffer;
  };
  \<close>

  A JavaScript number is a binary64 value. The elements of a \<open>Float32Array\<close> are
  binary32 values: NaN, the infinities, and finite dyadic rationals with a significand of
  24 bits. The only arithmetic of the encoder is \<open>Math.min(1, x)\<close>, which rounds nothing,
  and one product with \<open>0x7fff\<close>, a number of 15 bits: the product of a binary32 value
  with it has a significand of at most 39 bits and an exponent far inside the range of
  binary64, so it is exact. Finite numbers are therefore modelled by the rationals, which
  contain every binary32 value; the theorems hold for every rational, hence for every
  sample the array can hold. (The sign of zero is not kept: \<open>-0\<close> is stored as \<open>0\<close>
  like \<open>+0\<close>.)
\<close>

datatype number = Num rat | NaN | Infinity | NegInfinity

text \<open>\<open>Math.min(x, y)\<close>: NaN if an argument is NaN, else the smaller one.\<close>

fun Math_min :: "number \<Rightarrow> number \<Rightarrow> number" where
  "Math_min NaN y = NaN"
| "Math_min x NaN = NaN"
| "Math_min NegInfinity y = NegInfinity"
| "Math_min x NegInfinity = NegInfinity"
| "Math_min Infinity y = y"
| "Math_min x Infinity = x"
| "Math_min (Num a) (Num b) = Num (min a b)"

text \<open>The operator \<open>*\<close> on numbers (exact on the finite products the encoder forms).\<close>

fun js_times :: "number \<Rightarrow> number \<Rightarrow> number" where
  "js_times NaN y = NaN"
| "js_times x NaN = NaN"
| "js_times (Num a) (Num b) = Num (a * b)"
| "js_times (Num a) Infinity =
     (if a = 0 then NaN else if 0 < a then Infinity else NegInfinity)"
| "js_times (Num a) NegInfinity =
     (if a = 0 then NaN else if 0 < a then NegInfinity else Infinity)"
| "js_times Infinity (Num b) =
     (if b = 0 then NaN else if 0 < b then Infinity else NegInfinity)"
| "js_times NegInfinity (Num b) =
     (if b = 0 then NaN else if 0 < b then NegInfinity else Infinity)"
| "js_times Infinity Infinity = Infinity"
| "js_times Infinity NegInfinity = NegInfinity"
| "js_times NegInfinity Infinity = NegInfinity"
| "js_times NegInfinity NegInfinity = Infinity"

text \<open>Rounding towards zero, the \<open>truncate\<close> of ECMAScript.\<close>

definition js_truncate :: "rat \<Rightarrow> int" where
  "js_truncate q = (if 0 \<le> q then \<lfloor>q\<rfloor> else \<lceil>q\<rceil>)"

text \<open>
  Storing a number into an \<open>Int16Array\<close> applies \<open>ToInt16\<close>: NaN and the infinities
  become 0, a finite number is truncated and reduced modulo \<open>2^16\<close> into the signed
  range. The element is a 16-bit word, read as a signed integer by \<open>sint\<close>.
\<close>

fun ToInt16 :: "number \<Rightarrow> 16 word" where
  "ToInt16 (Num q) = word_of_int (js_truncate q)"
| "ToInt16 NaN = 0"
| "ToInt16 Infinity = 0"
| "ToInt16 NegInfinity = 0"

subsection \<open>The AudioWorklet version\<close>

text \<open>
  The \<open>for\<close> loop, with the index \<open>i\<close> and the array \<open>buf\<close> as its state. The read
  \<open>buffer[i]\<close> is in range, as \<open>i < l\<close> and \<open>l\<close> is the length of \<open>buffer\<close>.
\<close>

function convert_loop :: "number list \<Rightarrow> nat \<Rightarrow> nat \<Rightarrow> 16 word list \<Rightarrow> 16 word list" where
  "convert_loop buffer l i buf =
     (if i < l
      then convert_loop buffer l (Suc i)
             (buf[i := ToInt16 (js_times (Math_min (Num 1) (buffer ! i)) (Num 0x7fff))])
      else buf)"
  by pat_completeness auto
termination
  by (relation "measure (\<lambda>(buffer, l, i, buf). l - i)") auto

text \<open>
  \<open>new Int16Array(l)\<close> is an array of \<open>l\<close> zeros. The function returns the
  \<open>ArrayBuffer\<close> behind \<open>buf\<close>; the model returns its elements.
\<close>

definition convertFloat32ToInt16 :: "number list \<Rightarrow> 16 word list" where
  "convertFloat32ToInt16 buffer =
     (let l = length buffer;
          buf = replicate l 0
      in convert_loop buffer l 0 buf)"

subsection \<open>The ScriptProcessor version\<close>

function convert_loop_ScriptProcessor ::
  "number list \<Rightarrow> nat \<Rightarrow> nat \<Rightarrow> 16 word list \<Rightarrow> 16 word list" where
  "convert_loop_ScriptProcessor buffer l i buf =
     (if i < l
      then convert_loop_ScriptProcessor buffer l (Suc i)
             (buf[i := ToInt16 (js_times (Math_min (Num 1) (buffer ! i)) (Num 0x7fff))])
      else buf)"
  by pat_completeness auto
termination
  by (relation "measure (\<lambda>(buffer, l, i, buf). l - i)") auto

definition convertFloat32ToInt16_ScriptProcessor :: "number list \<Rightarrow> 16 word list" where
  "convertFloat32ToInt16_ScriptProcessor buffer =
     (let l = length buffer;
          buf = replicate l 0
      in convert_loop_ScriptProcessor buffer l 0 buf)"

text \<open>What one iteration stores for the sample \<open>x\<close>.\<close>

definition encode_sample :: "number \<Rightarrow> 16 word" where
  "encode_sample x = ToInt16 (js_times (Math_min (Num 1) x) (Num 0x7fff))"

section \<open>The streaming session\<close>

subsection \<open>Data\<close>

text \<open>The \<open>readyState\<close> of a browser WebSocket.\<close>

datatype readyState = CONNECTING | OPEN | CLOSING | CLOSED

text \<open>
  The React state \<open>connectionStatus\<close>, of type
  \<open>"disconnected" | "connecting" | "connected" | "error"\<close>.
\<close>

datatype connectionStatus = St_disconnected | St_connecting | St_connected | St_error

text \<open>
  What the client sends on a socket: the text frame
  \<open>JSON.stringify({type: "auth", token})\<close>, or a binary frame of encoded samples.
\<close>

datatype frame = AuthFrame string | AudioFrame "16 word list"

text \<open>
  A WebSocket object: its transport state, the frames handed to the network, and the
  token captured by the \<open>connectWebSocket\<close> closure that created it and installed its
  handlers (its \<open>onclose\<close> passes that same closure to \<open>setTimeout\<close>).
\<close>

record websocket =
  readyState :: readyState
  closure_token :: string
  sent :: "frame list"

text \<open>
  \<open>send\<close> as the WebSocket standard has it: it throws \<open>InvalidStateError\<close> while the
  socket is connecting, transmits when it is open, and discards the data silently once
  the socket is closing or closed. \<open>close\<close> moves a connecting or open socket to
  \<open>CLOSING\<close> and does nothing otherwise.
\<close>

datatype exn = InvalidStateError

definition ws_send :: "frame \<Rightarrow> websocket \<Rightarrow> exn + websocket" where
  "ws_send f w =
     (case readyState w of
        CONNECTING \<Rightarrow> Inl InvalidStateError
      | OPEN \<Rightarrow> Inr (w\<lparr>sent := sent w @ [f]\<rparr>)
      | CLOSING \<Rightarrow> Inr w
      | CLOSED \<Rightarrow> Inr w)"

definition ws_close :: "websocket \<Rightarrow> websocket" where
  "ws_close w =
     (case readyState w of
        CONNECTING \<Rightarrow> w\<lparr>readyState := CLOSING\<rparr>
      | OPEN \<Rightarrow> w\<lparr>readyState := CLOSING\<rparr>
      | CLOSING \<Rightarrow> w
      | CLOSED \<Rightarrow> w)"

text \<open>
  A token of type \<open>string | null\<close> and a field of type \<open>string | undefined\<close> are a
  \<open>string option\<close>. It is truthy when it is a non-empty string. For a field of an
  inbound message \<open>None\<close> is the absent field, which a template literal renders as
  \<open>undefined\<close>; a field that is JSON \<open>null\<close> is not among the messages modelled.
\<close>

fun truthy :: "string option \<Rightarrow> bool" where
  "truthy None = False"
| "truthy (Some t) = (t \<noteq> [])"

fun ToString :: "string option \<Rightarrow> string" where
  "ToString None = ''undefined''"
| "ToString (Some t) = t"

text \<open>
  The toasts of the component, by what they report. \<open>AuthErrorToast_message\<close> and
  \<open>AuthErrorToast_close\<close> both carry the title for an authentication error: the first
  answers the server's error message, the second the close code 4001.
\<close>

datatype toast =
    AuthErrorToast_message
  | AuthErrorToast_close
  | ErrorToast "string option"
  | ConnectionErrorToast
  | InsufficientBalanceToast
  | MicrophoneErrorToast
  | MinutesSuccessToast
  | MinutesErrorToast

text \<open>
  The side effects a handler has on the world outside the component state, in the order
  they happen.
\<close>

datatype effect =
    Toast toast
  | ConsoleLog
  | ConsoleWarn
  | ConsoleError
  | UncaughtException exn
  | GetUserMedia
  | PostGenerateMinutes string
  | FetchProfile
  | Logout

text \<open>
  The state: the two module-level variables \<open>globalWebSocket\<close> and
  \<open>isExplicitlyClosing\<close>, the React state and refs of \<open>TranscriptionApp\<close>, the token
  of the authentication context, and the bookkeeping of the environment: the sockets that
  \<open>globalWebSocket\<close> no longer refers to but whose handlers the browser can still call
  (\<open>detached\<close>), the pending \<open>setTimeout(connectWebSocket, ms)\<close> calls as pairs of the
  delay and the token of the closure, the number of \<open>onopen\<close> handlers suspended at
  \<open>await fetchAuthSession()\<close>, and the effects so far. \<open>balance\<close> is
  \<open>number | null\<close>; \<open>None\<close> stands for a balance that is not a number.
\<close>

record app =
  token :: "string option"
  globalWebSocket :: "websocket option"
  detached :: "websocket list"
  isExplicitlyClosing :: bool
  connectionStatus :: connectionStatus
  allTranscript :: string
  immediate :: "string option"
  minutes :: "string option"
  balance :: "rat option"
  isRecording :: bool
  streamRef :: bool
  audioContextRef :: bool
  processorRef :: bool
  timers :: "(nat \<times> string) list"
  pendingSessionFetches :: nat
  effects :: "effect list"

definition initial_state :: app where
  "initial_state =
     \<lparr>token = None, globalWebSocket = None, detached = [], isExplicitlyClosing = False,
      connectionStatus = St_disconnected, allTranscript = [], immediate = Some [],
      minutes = Some [], balance = None, isRecording = False, streamRef = False,
      audioContextRef = False, processorRef = False, timers = [],
      pendingSessionFetches = 0, effects = []\<rparr>"

definition emit :: "effect list \<Rightarrow> app \<Rightarrow> app" where
  "emit es s = s\<lparr>effects := effects s @ es\<rparr>"

subsection \<open>connectWebSocket and the handlers it installs\<close>

text \<open>
  \<^verbatim>\<open>
  if (globalWebSocket) {
    if (globalWebSocket.readyState === WebSocket.OPEN ||
        globalWebSocket.readyState === WebSocket.CONNECTING) { return; }
  }
  if (!token) return;
  setConnectionStatus("connecting");
  isExplicitlyClosing = false;
  console.log(...);
  globalWebSocket = new WebSocket(wsUrl, "cognito-auth");
  \<close>
  \<open>tok\<close> is the \<open>token\<close> the closure captured. The socket that \<open>globalWebSocket\<close>
  referred to before lives on among the detached ones.
\<close>

definition handle_active :: "app \<Rightarrow> bool" where
  "handle_active s =
     (case globalWebSocket s of
        None \<Rightarrow> False
      | Some w \<Rightarrow> readyState w = OPEN \<or> readyState w = CONNECTING)"

definition connectWebSocket :: "string option \<Rightarrow> app \<Rightarrow> app" where
  "connectWebSocket tok s =
     (if handle_active s then s
      else (case tok of
              None \<Rightarrow> s
            | Some t \<Rightarrow>
                if t = [] then s
                else s\<lparr>connectionStatus := St_connecting,
                       isExplicitlyClosing := False,
                       detached := (case globalWebSocket s of
                                      None \<Rightarrow> detached s
                                    | Some w \<Rightarrow> detached s @ [w]),
                       globalWebSocket :=
                         Some \<lparr>readyState = CONNECTING, closure_token = t, sent = []\<rparr>,
                       effects := effects s @ [ConsoleLog]\<rparr>))"

text \<open>
  \<open>onopen\<close> is an async function: it runs to \<open>await fetchAuthSession()\<close>, and is
  resumed with the outcome of the fetch, by which time other handlers may have run.
  \<^verbatim>\<open>
  console.log(...);
  try {
    const session = await fetchAuthSession();
    const latestToken = session.tokens?.accessToken?.toString();
    if (globalWebSocket && latestToken) {
      console.log(...);
      globalWebSocket.send(JSON.stringify({ type: "auth", token: latestToken }));
    }
  } catch (err) { console.error(...); }
  setConnectionStatus("connected");
  \<close>
\<close>

datatype session_result = SessionResolved "string option" | SessionRejected

definition onopen_begin :: "app \<Rightarrow> app" where
  "onopen_begin s =
     s\<lparr>pendingSessionFetches := Suc (pendingSessionFetches s),
       effects := effects s @ [ConsoleLog]\<rparr>"

definition onopen_resume :: "session_result \<Rightarrow> app \<Rightarrow> app" where
  "onopen_resume r s =
     (let s1 =
        (case r of
           SessionRejected \<Rightarrow> emit [ConsoleError] s
         | SessionResolved None \<Rightarrow> s
         | SessionResolved (Some latestToken) \<Rightarrow>
             (case globalWebSocket s of
                None \<Rightarrow> s
              | Some w \<Rightarrow>
                  if latestToken = [] then s
                  else (case ws_send (AuthFrame latestToken) w of
                          Inl e \<Rightarrow> emit [ConsoleLog, ConsoleError] s
                        | Inr w' \<Rightarrow> emit [ConsoleLog] (s\<lparr>globalWebSocket := Some w'\<rparr>))))
      in s1\<lparr>connectionStatus := St_connected\<rparr>)"

text \<open>
  \<open>onmessage\<close>. The event data is either text that \<open>JSON.parse\<close> rejects (or parses to
  \<open>null\<close>, whose fields cannot be read): the \<open>catch\<close> logs it; or an object, of which
  the handler reads the fields \<open>type\<close>, \<open>text\<close> and \<open>message\<close>. The protocol's fields
  are strings; an absent one reads as \<open>undefined\<close>, and messages with a field of
  another kind (a number, \<open>null\<close>) are left out.
  \<^verbatim>\<open>
  if (data.type === "error" && data.message === <authentication failed>) {
    toast(...); console.error(...); return;
  }
  if (data.type === "transcription") {
    setAllTranscript((prev) => `${prev} ${data.text}`);
  } else if (data.type === "immediate") { setImmediate(data.text);
  } else if (data.type === "minutes") { setMinutes(data.text);
  } else if (data.type === "error") { toast({ ..., description: data.message }); }
  \<close>
  The reserved message is a string of four Japanese characters, given here by its UTF-8
  bytes.
\<close>

record message =
  msg_type :: "string option"
  msg_text :: "string option"
  msg_message :: "string option"

datatype inbound = Unparseable | Parsed message

definition auth_failed_message :: string where
  "auth_failed_message =
     [CHR 0xE8, CHR 0xAA, CHR 0x8D, CHR 0xE8, CHR 0xA8, CHR 0xBC,
      CHR 0xE5, CHR 0xA4, CHR 0xB1, CHR 0xE6, CHR 0x95, CHR 0x97]"

definition onmessage :: "inbound \<Rightarrow> app \<Rightarrow> app" where
  "onmessage ev s =
     (case ev of
        Unparseable \<Rightarrow> emit [ConsoleError] s
      | Parsed d \<Rightarrow>
          if msg_type d = Some ''error'' \<and> msg_message d = Some auth_failed_message
          then emit [Toast AuthErrorToast_message, ConsoleError] s
          else if msg_type d = Some ''transcription''
          then s\<lparr>allTranscript := allTranscript s @ '' '' @ ToString (msg_text d)\<rparr>
          else if msg_type d = Some ''immediate''
          then s\<lparr>immediate := msg_text d\<rparr>
          else if msg_type d = Some ''minutes''
          then s\<lparr>minutes := msg_text d\<rparr>
          else if msg_type d = Some ''error''
          then emit [Toast (ErrorToast (msg_message d))] s
          else s)"

text \<open>
  \<^verbatim>\<open>
  globalWebSocket.onerror = (error) => {
    if (!isExplicitlyClosing) { console.error(...); setConnectionStatus("error"); }
  };
  \<close>
\<close>

definition onerror :: "app \<Rightarrow> app" where
  "onerror s =
     (if \<not> isExplicitlyClosing s
      then (emit [ConsoleError] s)\<lparr>connectionStatus := St_error\<rparr>
      else s)"

text \<open>
  \<^verbatim>\<open>
  globalWebSocket.onclose = (event) => {
    if (isExplicitlyClosing) {
      console.log(...);
    } else {
      console.log(...);
      setConnectionStatus("disconnected");
      if (event.code === 4001) {
        toast(...); console.error(...);
        return;
      }
      if (event.code !== 1000 && event.code !== 1001) {
        setTimeout(connectWebSocket, 3000);
      }
    }
  };
  \<close>
  \<open>tok\<close> is the token of the closure \<open>connectWebSocket\<close> that the handler passes on.
\<close>

definition onclose :: "string \<Rightarrow> nat \<Rightarrow> app \<Rightarrow> app" where
  "onclose tok code s =
     (if isExplicitlyClosing s then emit [ConsoleLog] s
      else (let s1 = (emit [ConsoleLog] s)\<lparr>connectionStatus := St_disconnected\<rparr>
            in if code = 4001
               then emit [Toast AuthErrorToast_close, ConsoleError] s1
               else if code \<noteq> 1000 \<and> code \<noteq> 1001
               then s1\<lparr>timers := timers s1 @ [(3000, tok)]\<rparr>
               else s1))"

text \<open>
  The effect that runs when the token or the closure changes:
  \<^verbatim>\<open>
  if (token) { connectWebSocket(); }
  else {
    if (globalWebSocket) {
      isExplicitlyClosing = true;
      globalWebSocket.close(1000, ...);
      globalWebSocket = null;
    }
    setConnectionStatus("disconnected");
  }
  \<close>
\<close>

definition tokenEffect :: "string option \<Rightarrow> app \<Rightarrow> app" where
  "tokenEffect tok s =
     (if truthy tok then connectWebSocket tok s
      else (case globalWebSocket s of
              None \<Rightarrow> s\<lparr>connectionStatus := St_disconnected\<rparr>
            | Some w \<Rightarrow>
                s\<lparr>isExplicitlyClosing := True,
                  detached := detached s @ [ws_close w],
                  globalWebSocket := None,
                  connectionStatus := St_disconnected\<rparr>))"

subsection \<open>Capture\<close>

text \<open>
  \<open>startRecording\<close> of the AudioWorklet version. What the environment answers to
  \<open>getUserMedia\<close> and to the construction of the audio graph is a parameter: the device
  is denied, or the stream is granted and loading the worklet module fails, or both
  succeed.
  \<^verbatim>\<open>
  try {
    if (connectionStatus !== "connected") { toast(...); return; }
    if (balance !== null && balance <= 0) { toast(...); return; }
    const stream = await navigator.mediaDevices.getUserMedia({ audio: true });
    streamRef.current = stream;
    audioContextRef.current = new AudioContext({ sampleRate: SAMPLE_RATE });
    ...
    await audioContextRef.current.audioWorklet.addModule(workletUrl);
    ...
    processorRef.current = processor;
    processor.port.onmessage = (e) => { ... };
    sourceRef.current.connect(processorRef.current);
    ...
    setIsRecording(true);
  } catch (error) { console.error(...); toast(...); }
  \<close>
\<close>

datatype media_outcome = MediaDenied | WorkletFailed | MediaGranted

definition startRecording :: "media_outcome \<Rightarrow> app \<Rightarrow> app" where
  "startRecording outcome s =
     (if connectionStatus s \<noteq> St_connected
      then emit [Toast ConnectionErrorToast] s
      else if (case balance s of None \<Rightarrow> False | Some b \<Rightarrow> b \<le> 0)
      then emit [Toast InsufficientBalanceToast] s
      else (case outcome of
              MediaDenied \<Rightarrow>
                emit [GetUserMedia, ConsoleError, Toast MicrophoneErrorToast] s
            | WorkletFailed \<Rightarrow>
                emit [GetUserMedia, ConsoleError, Toast MicrophoneErrorToast]
                  (s\<lparr>streamRef := True, audioContextRef := True\<rparr>)
            | MediaGranted \<Rightarrow>
                emit [GetUserMedia]
                  (s\<lparr>streamRef := True, audioContextRef := True, processorRef := True,
                     isRecording := True\<rparr>)))"

text \<open>
  \<^verbatim>\<open>
  if (streamRef.current) { ...stop the tracks...; streamRef.current = null; }
  if (audioContextRef.current) {
    sourceRef.current?.disconnect();
    processorRef.current?.disconnect();
    processorRef.current = null;
    audioContextRef.current.close();
  }
  setIsRecording(false);
  \<close>
\<close>

definition stopRecording :: "app \<Rightarrow> app" where
  "stopRecording s =
     (let s1 = s\<lparr>streamRef := False\<rparr>;
          s2 = (if audioContextRef s1 then s1\<lparr>processorRef := False\<rparr> else s1)
      in s2\<lparr>isRecording := False\<rparr>)"

text \<open>
  The chunk handler of the AudioWorklet version; \<open>e.data\<close> is the chunk of float samples.
  \<^verbatim>\<open>
  processor.port.onmessage = (e) => {
    if (globalWebSocket?.readyState === WebSocket.OPEN) {
      const audioData = convertFloat32ToInt16(e.data);
      globalWebSocket.send(audioData);
    }
  };
  \<close>
  An exception of \<open>send\<close> would leave the handler uncaught.
\<close>

definition port_onmessage :: "number list \<Rightarrow> app \<Rightarrow> app" where
  "port_onmessage data s =
     (case globalWebSocket s of
        None \<Rightarrow> s
      | Some w \<Rightarrow>
          if readyState w = OPEN
          then (case ws_send (AudioFrame (convertFloat32ToInt16 data)) w of
                  Inl e \<Rightarrow> emit [UncaughtException e] s
                | Inr w' \<Rightarrow> s\<lparr>globalWebSocket := Some w'\<rparr>)
          else s)"

text \<open>
  The chunk handler of the ScriptProcessor version; \<open>r\<close> is what \<open>Math.random()\<close>
  returns, a number from 0 up to but not including 1.
  \<^verbatim>\<open>
  processorRef.current.onaudioprocess = (e) => {
    if (globalWebSocket?.readyState === WebSocket.OPEN) {
      const inputData = e.inputBuffer.getChannelData(0);
      const audioData = convertFloat32ToInt16(inputData);
      globalWebSocket.send(audioData);
    } else {
      if (Math.random() < 0.01) { console.warn(...); }
    }
  };
  \<close>
\<close>

definition onaudioprocess :: "rat \<Rightarrow> number list \<Rightarrow> app \<Rightarrow> app" where
  "onaudioprocess r inputData s =
     (if (case globalWebSocket s of None \<Rightarrow> False | Some w \<Rightarrow> readyState w = OPEN)
      then (case globalWebSocket s of
              None \<Rightarrow> s
            | Some w \<Rightarrow>
                (case ws_send (AudioFrame (convertFloat32ToInt16_ScriptProcessor inputData)) w of
                   Inl e \<Rightarrow> emit [UncaughtException e] s
                 | Inr w' \<Rightarrow> s\<lparr>globalWebSocket := Some w'\<rparr>))
      else if r < 1 / 100 then emit [ConsoleWarn] s
      else s)"

subsection \<open>Summary generation and logout\<close>

text \<open>
  \<open>generateMinutes\<close>. The outcome of the request is a parameter: \<open>fetch\<close> rejects, or
  the response is not ok, or its body is not JSON (or is \<open>null\<close>), or the response is ok
  and \<open>data.minutes\<close> is read from it. \<open>fetchProfile\<close> catches its own errors and never
  rejects.
  \<^verbatim>\<open>
  if (!token) return;
  try {
    const response = await fetch(..., { ..., body: JSON.stringify({ transcript: allTranscript }) });
    if (!response.ok) throw new Error(...);
    const data = await response.json();
    setMinutes(data.minutes);
    await fetchProfile();
    toast(...);
  } catch (error) { console.error(...); toast(...); }
  \<close>
  The button that calls it is rendered with \<open>disabled={!allTranscript}\<close>.
\<close>

datatype fetch_outcome = FetchRejected | ResponseNotOk | JsonRejected | ResponseOk "string option"

definition generateMinutes :: "fetch_outcome \<Rightarrow> app \<Rightarrow> app" where
  "generateMinutes outcome s =
     (if \<not> truthy (token s) then s
      else (let s1 = emit [PostGenerateMinutes (allTranscript s)] s
            in case outcome of
                 ResponseOk m \<Rightarrow> emit [FetchProfile, Toast MinutesSuccessToast] (s1\<lparr>minutes := m\<rparr>)
               | FetchRejected \<Rightarrow> emit [ConsoleError, Toast MinutesErrorToast] s1
               | ResponseNotOk \<Rightarrow> emit [ConsoleError, Toast MinutesErrorToast] s1
               | JsonRejected \<Rightarrow> emit [ConsoleError, Toast MinutesErrorToast] s1))"

definition generate_onClick :: "fetch_outcome \<Rightarrow> app \<Rightarrow> app" where
  "generate_onClick outcome s = (if allTranscript s = [] then s else generateMinutes outcome s)"

text \<open>
  The logout button:
  \<^verbatim>\<open>
  isExplicitlyClosing = true;
  if (globalWebSocket) globalWebSocket.close();
  globalWebSocket = null;
  if (isRecording) stopRecording();
  logout();
  \<close>
\<close>

definition logout_onClick :: "app \<Rightarrow> app" where
  "logout_onClick s =
     (let s1 = s\<lparr>isExplicitlyClosing := True,
                 detached := (case globalWebSocket s of
                                None \<Rightarrow> detached s
                              | Some w \<Rightarrow> detached s @ [ws_close w]),
                 globalWebSocket := None\<rparr>;
          s2 = (if isRecording s1 then stopRecording s1 else s1)
      in emit [Logout] s2)"

subsection \<open>Events\<close>

text \<open>
  Handlers run one at a time, each to its end or to its next \<open>await\<close>, and a handler
  reads the React state as the handlers before it left it. An event is what
  the environment does next: the token changes and the effect above runs; a pending timer
  fires; the browser opens a socket, delivers a message on it, or closes it (after a
  failure it fires \<open>error\<close> and then \<open>close\<close> in one task); a session fetch completes;
  the profile arrives; the user clicks; the audio graph delivers a chunk. An event that
  cannot happen in a state leaves it as it is: a socket opens only while it is
  connecting, receives only while it is open, and closes once; the record button shows
  start or stop by \<open>isRecording\<close> and start is disabled unless the status is connected;
  chunks arrive only while the processor node is connected.
\<close>

datatype sockref = Global | Detached nat

datatype event =
    TokenEffect "string option"
  | TimerFires nat
  | WsOpen sockref
  | SessionFetched session_result
  | WsMessage sockref inbound
  | WsClosed sockref bool nat
  | ProfileLoaded "rat option"
  | ClickStart media_outcome
  | ClickStop
  | AudioChunk "number list"
  | ClickGenerate fetch_outcome
  | ClickLogout

fun get_socket :: "sockref \<Rightarrow> app \<Rightarrow> websocket option" where
  "get_socket Global s = globalWebSocket s"
| "get_socket (Detached i) s = (if i < length (detached s) then Some (detached s ! i) else None)"

fun set_socket :: "sockref \<Rightarrow> websocket \<Rightarrow> app \<Rightarrow> app" where
  "set_socket Global w s = s\<lparr>globalWebSocket := Some w\<rparr>"
| "set_socket (Detached i) w s = s\<lparr>detached := (detached s)[i := w]\<rparr>"

fun step :: "event \<Rightarrow> app \<Rightarrow> app" where
  "step (TokenEffect tok) s = tokenEffect tok (s\<lparr>token := tok\<rparr>)"
| "step (TimerFires i) s =
     (if i < length (timers s)
      then connectWebSocket (Some (snd (timers s ! i)))
             (s\<lparr>timers := take i (timers s) @ drop (Suc i) (timers s)\<rparr>)
      else s)"
| "step (WsOpen ref) s =
     (case get_socket ref s of
        None \<Rightarrow> s
      | Some w \<Rightarrow>
          if readyState w = CONNECTING
          then onopen_begin (set_socket ref (w\<lparr>readyState := OPEN\<rparr>) s)
          else s)"
| "step (SessionFetched r) s =
     (if 0 < pendingSessionFetches s
      then onopen_resume r (s\<lparr>pendingSessionFetches := pendingSessionFetches s - 1\<rparr>)
      else s)"
| "step (WsMessage ref ev) s =
     (case get_socket ref s of
        None \<Rightarrow> s
      | Some w \<Rightarrow> if readyState w = OPEN then onmessage ev s else s)"
| "step (WsClosed ref failed code) s =
     (case get_socket ref s of
        None \<Rightarrow> s
      | Some w \<Rightarrow>
          if readyState w = CLOSED then s
          else (let s1 = set_socket ref (w\<lparr>readyState := CLOSED\<rparr>) s;
                    s2 = (if failed then onerror s1 else s1)
                in onclose (closure_token w) code s2))"
| "step (ProfileLoaded b) s = s\<lparr>balance := b\<rparr>"
| "step (ClickStart outcome) s =
     (if \<not> isRecording s \<and> connectionStatus s = St_connected
      then startRecording outcome s
      else s)"
| "step ClickStop s = (if isRecording s then stopRecording s else s)"
| "step (AudioChunk data) s = (if processorRef s then port_onmessage data s else s)"
| "step (ClickGenerate outcome) s = generate_onClick outcome s"
| "step ClickLogout s = logout_onClick s"

fun run :: "event list \<Rightarrow> app \<Rightarrow> app" where
  "run [] s = s"
| "run (e # es) s = run es (step e s)"

text \<open>The sockets that exist, and those that are connecting or open.\<close>

definition handles :: "app \<Rightarrow> websocket list" where
  "handles s = (case globalWebSocket s of None \<Rightarrow> [] | Some w \<Rightarrow> [w]) @ detached s"

definition active :: "websocket \<Rightarrow> bool" where
  "active w = (readyState w = OPEN \<or> readyState w = CONNECTING)"

text \<open>The transport of the current handle is open: what the chunk handlers test.\<close>

definition transport_open :: "app \<Rightarrow> bool" where
  "transport_open s =
     (case globalWebSocket s of None \<Rightarrow> False | Some w \<Rightarrow> readyState w = OPEN)"

definition detached_inactive :: "app \<Rightarrow> bool" where
  "detached_inactive s = list_all (\<lambda>w. \<not> active w) (detached s)"

text \<open>
  The inbound message \<open>{type: "immediate", text: x}\<close>; its text is a string, or
  absent.
\<close>

definition immediate_message :: "string option \<Rightarrow> inbound" where
  "immediate_message x =
     Parsed \<lparr>msg_type = Some ''immediate'', msg_text = x, msg_message = None\<rparr>"

subsection \<open>Three scenarios\<close>

text \<open>
  A first connection: the user is signed in with token \<open>T1\<close>, the socket opens, the session
  fetch returns \<open>T1\<close>.
\<close>

definition first_connection :: "event list" where
  "first_connection =
     [TokenEffect (Some ''T1''), WsOpen Global, SessionFetched (SessionResolved (Some ''T1''))]"

text \<open>
  A reconnection during a recording: after the first connection the user starts recording;
  the connection is lost with code 1006; three seconds later the timer calls
  \<open>connectWebSocket\<close>, and the new socket opens. Its \<open>onopen\<close> is now waiting for the
  session.
\<close>

definition reconnect_while_recording :: "event list" where
  "reconnect_while_recording =
     first_connection
       @ [ClickStart MediaGranted, WsClosed Global True 1006, TimerFires 0, WsOpen Global]"

text \<open>
  A connection on which the session has no tokens: the socket opens, \<open>latestToken\<close> is
  \<open>undefined\<close>, the user starts recording and the first chunk arrives.
\<close>

definition connect_without_token :: "event list" where
  "connect_without_token =
     [TokenEffect (Some ''T1''), WsOpen Global, SessionFetched (SessionResolved None),
      ClickStart MediaGranted, AudioChunk [Num 1]]"

section \<open>Properties of the encoder\<close>

declare convert_loop.simps [simp del]
declare convert_loop_ScriptProcessor.simps [simp del]

lemma convert_loop_map:
  "length buf = length buffer \<Longrightarrow> l = length buffer \<Longrightarrow> i \<le> l \<Longrightarrow>
   convert_loop buffer l i buf = take i buf @ map encode_sample (drop i buffer)"
proof (induction buffer l i buf rule: convert_loop.induct)
  case (1 buffer l i buf)
  show ?case
  proof (cases "i < l")
    case True
    let ?v = "ToInt16 (js_times (Math_min (Num 1) (buffer ! i)) (Num 0x7fff))"
    have step: "convert_loop buffer l i buf = convert_loop buffer l (Suc i) (buf[i := ?v])"
      using True by (subst convert_loop.simps) simp
    have ih: "convert_loop buffer l (Suc i) (buf[i := ?v])
                = take (Suc i) (buf[i := ?v]) @ map encode_sample (drop (Suc i) buffer)"
      using "1.IH" [OF True] "1.prems" True by simp
    have a: "take (Suc i) (buf[i := ?v]) = take i buf @ [?v]"
      using True "1.prems" by (simp add: take_Suc_conv_app_nth)
    have b: "drop i buffer = buffer ! i # drop (Suc i) buffer"
      using True "1.prems" by (simp add: Cons_nth_drop_Suc)
    show ?thesis
      by (simp add: step ih a b encode_sample_def)
  next
    case False
    with "1.prems" have "i = length buffer" by simp
    moreover have "convert_loop buffer l i buf = buf"
      using False by (subst convert_loop.simps) simp
    ultimately show ?thesis using "1.prems" by simp
  qed
qed

lemma convertFloat32ToInt16_map:
  "convertFloat32ToInt16 buffer = map encode_sample buffer"
  by (simp add: convertFloat32ToInt16_def Let_def convert_loop_map)

lemma convert_loop_ScriptProcessor_map:
  "length buf = length buffer \<Longrightarrow> l = length buffer \<Longrightarrow> i \<le> l \<Longrightarrow>
   convert_loop_ScriptProcessor buffer l i buf
     = take i buf @ map encode_sample (drop i buffer)"
proof (induction buffer l i buf rule: convert_loop_ScriptProcessor.induct)
  case (1 buffer l i buf)
  show ?case
  proof (cases "i < l")
    case True
    let ?v = "ToInt16 (js_times (Math_min (Num 1) (buffer ! i)) (Num 0x7fff))"
    have step: "convert_loop_ScriptProcessor buffer l i buf
                  = convert_loop_ScriptProcessor buffer l (Suc i) (buf[i := ?v])"
      using True by (subst convert_loop_ScriptProcessor.simps) simp
    have ih: "convert_loop_ScriptProcessor buffer l (Suc i) (buf[i := ?v])
                = take (Suc i) (buf[i := ?v]) @ map encode_sample (drop (Suc i) buffer)"
      using "1.IH" [OF True] "1.prems" True by simp
    have a: "take (Suc i) (buf[i := ?v]) = take i buf @ [?v]"
      using True "1.prems" by (simp add: take_Suc_conv_app_nth)
    have b: "drop i buffer = buffer ! i # drop (Suc i) buffer"
      using True "1.prems" by (simp add: Cons_nth_drop_Suc)
    show ?thesis
      by (simp add: step ih a b encode_sample_def)
  next
    case False
    with "1.prems" have "i = length buffer" by simp
    moreover have "convert_loop_ScriptProcessor buffer l i buf = buf"
      using False by (subst convert_loop_ScriptProcessor.simps) simp
    ultimately show ?thesis using "1.prems" by simp
  qed
qed

lemma convertFloat32ToInt16_ScriptProcessor_map:
  "convertFloat32ToInt16_ScriptProcessor buffer = map encode_sample buffer"
  by (simp add: convertFloat32ToInt16_ScriptProcessor_def Let_def
        convert_loop_ScriptProcessor_map)

lemma floor_numeral_div_rat:
  "\<lfloor>(numeral a :: rat) / numeral b\<rfloor> = numeral a div numeral b"
  using floor_divide_of_int_eq [of "numeral a" "numeral b", where ?'a = rat] by simp

lemma ceiling_neg_numeral_div_rat:
  "\<lceil>- ((numeral a :: rat) / numeral b)\<rceil> = - (numeral a div numeral b)"
  by (simp add: ceiling_def floor_numeral_div_rat)

lemma js_truncate_bounds:
  assumes "- 32767 \<le> q" and "q \<le> 32767"
  shows "- 32767 \<le> js_truncate q \<and> js_truncate q \<le> 32767"
proof (cases "0 \<le> q")
  case True
  then have "js_truncate q = \<lfloor>q\<rfloor>" by (simp add: js_truncate_def)
  moreover have "\<lfloor>q\<rfloor> \<le> 32767" using assms(2) by (simp add: floor_le_iff)
  moreover have "0 \<le> \<lfloor>q\<rfloor>" using True by simp
  ultimately show ?thesis by simp
next
  case False
  then have "js_truncate q = \<lceil>q\<rceil>" by (simp add: js_truncate_def)
  moreover have "- 32767 \<le> \<lceil>q\<rceil>" using assms(1) by (simp add: le_ceiling_iff)
  moreover have "\<lceil>q\<rceil> \<le> 0" using False by (simp add: ceiling_le_iff)
  ultimately show ?thesis by simp
qed

lemma sint_encode_sample:
  assumes "- 1 \<le> x"
  shows "sint (encode_sample (Num x)) = js_truncate (min 1 x * 32767)"
proof -
  let ?q = "min 1 x * 32767"
  have "- 32767 \<le> ?q" and "?q \<le> 32767"
    using assms by (simp_all add: min_def)
  then have b: "- 32767 \<le> js_truncate ?q \<and> js_truncate ?q \<le> 32767"
    by (rule js_truncate_bounds)
  have "signed_take_bit 15 (js_truncate ?q) = js_truncate ?q"
    by (rule signed_take_bit_int_eq_self) (use b in simp_all)
  then have "sint (word_of_int (js_truncate ?q) :: 16 word) = js_truncate ?q"
    by (simp add: sint_sbintrunc')
  then show ?thesis
    by (simp add: encode_sample_def)
qed

text \<open>
  C10. The two versions of \<open>convertFloat32ToInt16\<close>, the one beside the AudioWorklet
  capture and the one beside the ScriptProcessor capture, are extensionally equal: for
  every input buffer they return the same 16-bit output buffer.
\<close>

theorem convertFloat32ToInt16_versions_equal:
  "convertFloat32ToInt16_ScriptProcessor buffer = convertFloat32ToInt16 buffer"
  by (simp add: convertFloat32ToInt16_ScriptProcessor_map convertFloat32ToInt16_map)

text \<open>The same equality on one buffer, holding every kind of sample.\<close>

theorem convertFloat32ToInt16_versions_equal_witness:
  "convertFloat32ToInt16_ScriptProcessor [Num (1 / 2), Num (- 3), NaN, Infinity]
     = convertFloat32ToInt16 [Num (1 / 2), Num (- 3), NaN, Infinity]"
  using convertFloat32ToInt16_versions_equal [of "[Num (1 / 2), Num (- 3), NaN, Infinity]"]
  by simp

text \<open>
  The sample \<open>-1.0\<close> is encoded as \<open>-32767\<close>, not as \<open>-32768\<close>: the encoder
  multiplies every sample by \<open>0x7fff\<close>, the negative ones too.
\<close>

theorem convertFloat32ToInt16_minus_one:
  "map sint (convertFloat32ToInt16 [Num (- 1)]) = [- 32767]
   \<and> map sint (convertFloat32ToInt16 [Num (- 1)]) \<noteq> [- 32768]"
  by (simp add: convertFloat32ToInt16_map encode_sample_def js_truncate_def)

text \<open>
  C2, amended. For every finite sample \<open>x\<close> that is at least \<open>-1\<close>, both versions of
  \<open>convertFloat32ToInt16\<close> store the 16-bit signed integer obtained by taking
  \<open>min(1, x)\<close>, multiplying by 32767 and truncating towards zero. So every value above 1
  is clamped to 1 before scaling and encodes to 32767, as 1.0 does, and -1.0 encodes to
  -32767. The output has the length of the input.
\<close>

theorem convertFloat32ToInt16_clamps_above:
  assumes "i < length buffer" and "buffer ! i = Num x" and "- 1 \<le> x"
  shows "length (convertFloat32ToInt16 buffer) = length buffer
       \<and> sint (convertFloat32ToInt16 buffer ! i) = js_truncate (min 1 x * 32767)
       \<and> sint (convertFloat32ToInt16_ScriptProcessor buffer ! i) = js_truncate (min 1 x * 32767)
       \<and> (1 \<le> x \<longrightarrow> sint (convertFloat32ToInt16 buffer ! i) = 32767)
       \<and> (x = - 1 \<longrightarrow> sint (convertFloat32ToInt16 buffer ! i) = - 32767)"
proof -
  have e: "sint (encode_sample (buffer ! i)) = js_truncate (min 1 x * 32767)"
    using assms(2,3) by (simp add: sint_encode_sample)
  have top: "1 \<le> x \<Longrightarrow> js_truncate (min 1 x * 32767) = 32767"
    by (simp add: js_truncate_def)
  have bot: "x = - 1 \<Longrightarrow> js_truncate (min 1 x * 32767) = - 32767"
    by (simp add: js_truncate_def)
  show ?thesis
    using assms(1) e top bot
    by (simp add: convertFloat32ToInt16_map convertFloat32ToInt16_ScriptProcessor_map)
qed

theorem convertFloat32ToInt16_clamps_above_witness:
  "sint (convertFloat32ToInt16 [Num 1, Num (- 1), Num 2, Num (1 / 2)] ! 0) = 32767
   \<and> sint (convertFloat32ToInt16 [Num 1, Num (- 1), Num 2, Num (1 / 2)] ! 1) = - 32767
   \<and> sint (convertFloat32ToInt16 [Num 1, Num (- 1), Num 2, Num (1 / 2)] ! 2) = 32767
   \<and> sint (convertFloat32ToInt16 [Num 1, Num (- 1), Num 2, Num (1 / 2)] ! 3) = 16383"
  using convertFloat32ToInt16_clamps_above [of 0 "[Num 1, Num (- 1), Num 2, Num (1 / 2)]" 1]
        convertFloat32ToInt16_clamps_above [of 1 "[Num 1, Num (- 1), Num 2, Num (1 / 2)]" "- 1"]
        convertFloat32ToInt16_clamps_above [of 2 "[Num 1, Num (- 1), Num 2, Num (1 / 2)]" 2]
        convertFloat32ToInt16_clamps_above [of 3 "[Num 1, Num (- 1), Num 2, Num (1 / 2)]" "1 / 2"]
  by (simp add: js_truncate_def floor_numeral_div_rat)

text \<open>
  Below \<open>-1\<close> nothing clamps: the product leaves the 16-bit range and the store wraps
  it, so that \<open>-2.0\<close> becomes 2 and \<open>-1.5\<close> becomes 16386.
\<close>

lemma convertFloat32ToInt16_below_minus_one:
  "map sint (convertFloat32ToInt16 [Num (- 2), Num (- 3 / 2)]) = [2, 16386]"
  by (simp add: convertFloat32ToInt16_map encode_sample_def js_truncate_def
        ceiling_neg_numeral_div_rat)

section \<open>Properties of the session\<close>

lemmas handler_defs = initial_state_def tokenEffect_def connectWebSocket_def
  handle_active_def onopen_begin_def onopen_resume_def emit_def ws_send_def Let_def
  startRecording_def onerror_def onclose_def port_onmessage_def onmessage_def
  convertFloat32ToInt16_map encode_sample_def js_truncate_def

subsection \<open>The close handler\<close>

text \<open>
  C1. For every close event that the close handler receives, a reconnection (a call of
  \<open>connectWebSocket\<close> after 3000 ms) is scheduled if and only if \<open>isExplicitlyClosing\<close>
  was false at that time and the close code is none of 1000, 1001 and 4001; otherwise the
  pending timers stay as they were. For 4001, when the close was not explicit, the
  authentication error is shown to the user.
\<close>

theorem onclose_reconnect_iff:
  "((timers (onclose tok code s) = timers s @ [(3000, tok)])
      = (\<not> isExplicitlyClosing s \<and> code \<notin> {1000, 1001, 4001}))
   \<and> (timers (onclose tok code s) = timers s @ [(3000, tok)]
        \<or> timers (onclose tok code s) = timers s)
   \<and> (\<not> isExplicitlyClosing s \<and> code = 4001 \<longrightarrow>
         effects (onclose tok code s)
           = effects s @ [ConsoleLog, Toast AuthErrorToast_close, ConsoleError])"
  by (simp add: onclose_def emit_def Let_def)

theorem onclose_reconnect_iff_witness:
  "timers (onclose ''T1'' 1006 initial_state) = [(3000, ''T1'')]
   \<and> timers (onclose ''T1'' 4001 initial_state) = []
   \<and> effects (onclose ''T1'' 4001 initial_state)
        = [ConsoleLog, Toast AuthErrorToast_close, ConsoleError]"
  using onclose_reconnect_iff [of "''T1''" 1006 initial_state]
        onclose_reconnect_iff [of "''T1''" 4001 initial_state]
  by (auto simp add: initial_state_def)

text \<open>
  The two scenarios of a close: after a first connection, the loss of the connection with
  code 1006 leaves one timer of 3000 ms; the close with code 1000 that follows the
  client's own \<open>close\<close> when the token goes away leaves none.
\<close>

lemma close_scenarios:
  "timers (run (first_connection @ [WsClosed Global True 1006]) initial_state)
     = [(3000, ''T1'')]
   \<and> timers (run (first_connection @ [TokenEffect None, WsClosed (Detached 0) False 1000])
        initial_state) = []"
  by (simp add: first_connection_def ws_close_def handler_defs)

subsection \<open>The chunk handlers\<close>

text \<open>
  While a recording runs, the connection is lost and re-established. At the moment the new
  socket has opened and its \<open>onopen\<close> waits for the session, \<open>connectionStatus\<close> is
  \<open>connecting\<close>; a chunk that arrives then is transmitted on the new socket.
\<close>

theorem chunk_sent_while_connecting:
  "connectionStatus (run reconnect_while_recording initial_state) = St_connecting
   \<and> globalWebSocket (run reconnect_while_recording initial_state)
       = Some \<lparr>readyState = OPEN, closure_token = ''T1'', sent = []\<rparr>
   \<and> globalWebSocket (step (AudioChunk [Num 1]) (run reconnect_while_recording initial_state))
       = Some \<lparr>readyState = OPEN, closure_token = ''T1'', sent = [AudioFrame [32767]]\<rparr>"
  by (simp add: first_connection_def reconnect_while_recording_def handler_defs)

text \<open>
  C3, amended. Every audio chunk is transmitted if and only if \<open>globalWebSocket\<close> is set
  and its transport \<open>readyState\<close> is \<open>OPEN\<close> (whatever \<open>connectionStatus\<close> is): then
  the encoded chunk is appended to the frames sent on that socket and nothing else
  changes. Otherwise the chunk is dropped: it is not queued and no error is thrown. The
  AudioWorklet handler then leaves the state as it is; the ScriptProcessor handler logs a
  warning only when \<open>Math.random()\<close> is below 0.01, and nothing else.
\<close>

theorem chunk_handlers_gate_on_transport:
  "(transport_open s \<longrightarrow>
      (\<exists>w. globalWebSocket s = Some w
         \<and> port_onmessage data s
             = s\<lparr>globalWebSocket :=
                   Some (w\<lparr>sent := sent w @ [AudioFrame (convertFloat32ToInt16 data)]\<rparr>)\<rparr>
         \<and> onaudioprocess r data s
             = s\<lparr>globalWebSocket :=
                   Some (w\<lparr>sent := sent w
                           @ [AudioFrame (convertFloat32ToInt16_ScriptProcessor data)]\<rparr>)\<rparr>))
   \<and> (\<not> transport_open s \<longrightarrow>
        port_onmessage data s = s
        \<and> onaudioprocess r data s = (if r < 1 / 100 then emit [ConsoleWarn] s else s))"
  by (auto simp add: transport_open_def port_onmessage_def onaudioprocess_def ws_send_def
        split: option.splits)

theorem chunk_handlers_gate_on_transport_witness:
  "transport_open (run reconnect_while_recording initial_state)
   \<and> handles (port_onmessage [Num 1] (run reconnect_while_recording initial_state))
       = [\<lparr>readyState = OPEN, closure_token = ''T1'', sent = [AudioFrame [32767]]\<rparr>,
          \<lparr>readyState = CLOSED, closure_token = ''T1'', sent = [AuthFrame ''T1'']\<rparr>]
   \<and> \<not> transport_open initial_state
   \<and> port_onmessage [Num 1] initial_state = initial_state
   \<and> onaudioprocess (1 / 2) [Num 1] initial_state = initial_state
   \<and> effects (onaudioprocess (1 / 200) [Num 1] initial_state) = [ConsoleWarn]"
  using chunk_handlers_gate_on_transport
          [of "run reconnect_while_recording initial_state" "[Num 1]" "1 / 2"]
        chunk_handlers_gate_on_transport [of initial_state "[Num 1]" "1 / 2"]
        chunk_handlers_gate_on_transport [of initial_state "[Num 1]" "1 / 200"]
  by (simp add: transport_open_def first_connection_def reconnect_while_recording_def
        handles_def handler_defs)

subsection \<open>The open handler\<close>

text \<open>
  Two connections on which an audio frame is the first frame sent. When the session has no
  tokens, \<open>onopen\<close> sends nothing and still sets the status to \<open>connected\<close>; the
  recording that the user then starts sends audio on a socket that never carries an
  \<open>auth\<close> message. And on the reconnection during a recording, the chunk that arrives
  while \<open>onopen\<close> waits for the session goes out before the \<open>auth\<close> message.
\<close>

theorem audio_frame_without_auth_frame:
  "connectionStatus (run connect_without_token initial_state) = St_connected
   \<and> globalWebSocket (run connect_without_token initial_state)
       = Some \<lparr>readyState = OPEN, closure_token = ''T1'', sent = [AudioFrame [32767]]\<rparr>
   \<and> globalWebSocket (run (reconnect_while_recording
         @ [AudioChunk [Num 1], SessionFetched (SessionResolved (Some ''T2''))]) initial_state)
       = Some \<lparr>readyState = OPEN, closure_token = ''T1'',
               sent = [AudioFrame [32767], AuthFrame ''T2'']\<rparr>"
  by (simp add: first_connection_def reconnect_while_recording_def
        connect_without_token_def handler_defs)

text \<open>
  C4, amended. When a socket opens, \<open>onopen\<close> first fetches the session, sending
  nothing and leaving the status as it is. When the fetch has returned, it sends
  \<open>{type: "auth", token}\<close> with the fetched token on the current handle if the token is
  non-empty and the handle is set (the frame goes out if that socket is open), and sends
  nothing if the fetch failed or returned no token; only then, and in every one of these
  cases, it sets the status to \<open>connected\<close>. A recording cannot be started while the
  status is not \<open>connected\<close>.
\<close>

theorem onopen_sends_auth_then_connected:
  "connectionStatus (onopen_begin s) = connectionStatus s
   \<and> handles (onopen_begin s) = handles s
   \<and> connectionStatus (onopen_resume r s) = St_connected
   \<and> detached (onopen_resume r s) = detached s
   \<and> (transport_open s \<and> globalWebSocket s = Some w \<and> latestToken \<noteq> [] \<longrightarrow>
        globalWebSocket (onopen_resume (SessionResolved (Some latestToken)) s)
          = Some (w\<lparr>sent := sent w @ [AuthFrame latestToken]\<rparr>))
   \<and> (r = SessionRejected \<or> r = SessionResolved None \<or> r = SessionResolved (Some []) \<longrightarrow>
        globalWebSocket (onopen_resume r s) = globalWebSocket s)
   \<and> (connectionStatus s \<noteq> St_connected \<longrightarrow>
        processorRef (startRecording outcome s) = processorRef s
        \<and> isRecording (startRecording outcome s) = isRecording s)"
  by (auto simp add: onopen_begin_def onopen_resume_def handles_def transport_open_def
        emit_def ws_send_def startRecording_def Let_def
        split: option.splits session_result.splits readyState.splits sum.splits)

text \<open>
  On a first connection the \<open>auth\<close> message is the first frame, and the recording started
  afterwards sends its audio after it.
\<close>

theorem onopen_sends_auth_then_connected_witness:
  "transport_open (run [TokenEffect (Some ''T1''), WsOpen Global] initial_state)
   \<and> connectionStatus (run [TokenEffect (Some ''T1''), WsOpen Global] initial_state)
       = St_connecting
   \<and> globalWebSocket (onopen_resume (SessionResolved (Some ''T1''))
         (run [TokenEffect (Some ''T1''), WsOpen Global] initial_state))
       = Some \<lparr>readyState = OPEN, closure_token = ''T1'', sent = [AuthFrame ''T1'']\<rparr>
   \<and> globalWebSocket (onopen_resume SessionRejected
         (run [TokenEffect (Some ''T1''), WsOpen Global] initial_state))
       = Some \<lparr>readyState = OPEN, closure_token = ''T1'', sent = []\<rparr>
   \<and> processorRef (startRecording MediaGranted
         (run [TokenEffect (Some ''T1''), WsOpen Global] initial_state)) = False
   \<and> globalWebSocket (run (first_connection @ [ClickStart MediaGranted, AudioChunk [Num 1]])
         initial_state)
       = Some \<lparr>readyState = OPEN, closure_token = ''T1'',
               sent = [AuthFrame ''T1'', AudioFrame [32767]]\<rparr>"
  using onopen_sends_auth_then_connected
          [of "run [TokenEffect (Some ''T1''), WsOpen Global] initial_state"
              SessionRejected
              "\<lparr>readyState = OPEN, closure_token = ''T1'', sent = []\<rparr>" "''T1''" MediaGranted]
  by (simp add: transport_open_def first_connection_def handler_defs)

subsection \<open>Starting the capture\<close>

text \<open>
  The balance is \<open>null\<close> until the profile has arrived, and the check
  \<open>balance !== null && balance <= 0\<close> lets \<open>null\<close> through: right after a first
  connection, with no balance known to be greater than 0, \<open>startRecording\<close> requests
  the device and the recording starts. And with balance 0 on a connection that is still
  connecting, the error shown is the connection error, not the insufficient-balance
  error.
\<close>

theorem startRecording_null_balance_requests_device:
  "connectionStatus (run first_connection initial_state) = St_connected
   \<and> balance (run first_connection initial_state) = None
   \<and> effects (startRecording MediaGranted (run first_connection initial_state))
       = [ConsoleLog, ConsoleLog, ConsoleLog, GetUserMedia]
   \<and> isRecording (startRecording MediaGranted (run first_connection initial_state))
   \<and> connectionStatus (run [TokenEffect (Some ''T1''), ProfileLoaded (Some 0)] initial_state)
       = St_connecting
   \<and> balance (run [TokenEffect (Some ''T1''), ProfileLoaded (Some 0)] initial_state) = Some 0
   \<and> effects (startRecording MediaGranted
         (run [TokenEffect (Some ''T1''), ProfileLoaded (Some 0)] initial_state))
       = [ConsoleLog, Toast ConnectionErrorToast]"
  by (simp add: first_connection_def handler_defs)

text \<open>
  C5, amended. Every call of \<open>startRecording\<close> in which the status is not
  \<open>connected\<close> is rejected with the connection error; every call in which the status
  is \<open>connected\<close> and the balance is loaded (not \<open>null\<close>) and not greater than 0 is
  rejected with the insufficient-balance error. In both cases the call returns before
  \<open>getUserMedia\<close> is requested and no capture is started; in particular a call with
  balance 0 never requests the device. The balance check is skipped while the balance is
  \<open>null\<close>: a call in which the status is \<open>connected\<close> and the balance is
  \<open>null\<close> goes on to request the device.
\<close>

theorem startRecording_rejects_before_device_access:
  "(connectionStatus s \<noteq> St_connected \<longrightarrow>
      startRecording outcome s = emit [Toast ConnectionErrorToast] s)
   \<and> (connectionStatus s = St_connected \<and> balance s = Some b \<and> \<not> 0 < b \<longrightarrow>
      startRecording outcome s = emit [Toast InsufficientBalanceToast] s)
   \<and> (connectionStatus s \<noteq> St_connected \<or> (balance s = Some b \<and> \<not> 0 < b) \<longrightarrow>
      GetUserMedia \<notin> set (drop (length (effects s)) (effects (startRecording outcome s)))
      \<and> streamRef (startRecording outcome s) = streamRef s
      \<and> processorRef (startRecording outcome s) = processorRef s
      \<and> isRecording (startRecording outcome s) = isRecording s)
   \<and> (connectionStatus s = St_connected \<and> balance s = None \<longrightarrow>
      take 1 (drop (length (effects s)) (effects (startRecording outcome s))) = [GetUserMedia])"
  by (auto simp add: startRecording_def emit_def split: media_outcome.splits)

theorem startRecording_rejects_before_device_access_witness:
  "connectionStatus initial_state \<noteq> St_connected
   \<and> effects (startRecording MediaGranted initial_state) = [Toast ConnectionErrorToast]
   \<and> connectionStatus (run (first_connection @ [ProfileLoaded (Some 0)]) initial_state)
       = St_connected
   \<and> balance (run (first_connection @ [ProfileLoaded (Some 0)]) initial_state) = Some 0
   \<and> effects (startRecording MediaGranted
         (run (first_connection @ [ProfileLoaded (Some 0)]) initial_state))
       = [ConsoleLog, ConsoleLog, ConsoleLog, Toast InsufficientBalanceToast]
   \<and> isRecording (startRecording MediaGranted
         (run (first_connection @ [ProfileLoaded (Some 0)]) initial_state)) = False
   \<and> connectionStatus (run first_connection initial_state) = St_connected
   \<and> balance (run first_connection initial_state) = None
   \<and> take 1 (drop 3 (effects (startRecording MediaDenied (run first_connection initial_state))))
       = [GetUserMedia]"
  using startRecording_rejects_before_device_access [of initial_state MediaGranted 0]
        startRecording_rejects_before_device_access
          [of "run (first_connection @ [ProfileLoaded (Some 0)]) initial_state" MediaGranted 0]
        startRecording_rejects_before_device_access
          [of "run first_connection initial_state" MediaDenied 0]
  by (simp add: first_connection_def handler_defs)

subsection \<open>At most one active handle\<close>

lemma ws_close_inactive: "\<not> active (ws_close w)"
  by (cases "readyState w") (simp_all add: ws_close_def active_def)

lemma detached_emit [simp]: "detached (emit es s) = detached s"
  by (simp add: emit_def)

lemma detached_onopen_begin: "detached (onopen_begin s) = detached s"
  by (simp add: onopen_begin_def)

lemma detached_onopen_resume: "detached (onopen_resume r s) = detached s"
  by (simp add: onopen_resume_def Let_def
        split: session_result.splits option.splits sum.splits)

lemma detached_onmessage: "detached (onmessage ev s) = detached s"
  by (simp add: onmessage_def split: inbound.splits)

lemma detached_onerror: "detached (onerror s) = detached s"
  by (simp add: onerror_def)

lemma detached_onclose: "detached (onclose tok code s) = detached s"
  by (simp add: onclose_def Let_def)

lemma detached_startRecording: "detached (startRecording outcome s) = detached s"
  by (simp add: startRecording_def split: media_outcome.splits)

lemma detached_stopRecording: "detached (stopRecording s) = detached s"
  by (simp add: stopRecording_def Let_def)

lemma detached_port_onmessage: "detached (port_onmessage data s) = detached s"
  by (simp add: port_onmessage_def split: option.splits sum.splits)

lemma detached_generate_onClick: "detached (generate_onClick outcome s) = detached s"
  by (simp add: generate_onClick_def generateMinutes_def Let_def split: fetch_outcome.splits)

text \<open>
  The invariant: every socket that \<open>globalWebSocket\<close> no longer refers to is closing or
  closed. \<open>connectWebSocket\<close> replaces the handle only when it is neither connecting nor
  open, the two places that set it to \<open>null\<close> call \<open>close\<close> first, and the browser
  never reopens a socket.
\<close>

lemma inactive_connectWebSocket:
  "detached_inactive s \<Longrightarrow> detached_inactive (connectWebSocket tok s)"
  by (auto simp add: connectWebSocket_def detached_inactive_def handle_active_def active_def
        split: option.splits)

lemma inactive_tokenEffect:
  "detached_inactive s \<Longrightarrow> detached_inactive (tokenEffect tok s)"
  using inactive_connectWebSocket [of s tok]
  by (auto simp add: tokenEffect_def detached_inactive_def ws_close_inactive
        split: option.splits)

lemma inactive_logout_onClick:
  "detached_inactive s \<Longrightarrow> detached_inactive (logout_onClick s)"
  by (auto simp add: logout_onClick_def detached_inactive_def ws_close_inactive Let_def
        detached_stopRecording split: option.splits)

lemma inactive_set_socket:
  "detached_inactive s \<Longrightarrow> \<not> active w \<or> ref = Global \<Longrightarrow>
   detached_inactive (set_socket ref w s)"
proof (cases ref)
  case Global
  assume "detached_inactive s"
  with Global show ?thesis by (simp add: detached_inactive_def)
next
  case (Detached i)
  assume a: "detached_inactive s" and b: "\<not> active w \<or> ref = Global"
  from b Detached have nw: "\<not> active w" by simp
  have sub: "set ((detached s)[i := w]) \<subseteq> insert w (set (detached s))"
    by (rule set_update_subset_insert)
  from a have "\<forall>x \<in> set (detached s). \<not> active x"
    by (simp add: detached_inactive_def list_all_iff)
  with nw sub have "\<forall>x \<in> set ((detached s)[i := w]). \<not> active x"
    by blast
  then have "list_all (\<lambda>w. \<not> active w) ((detached s)[i := w])"
    by (simp add: list_all_iff)
  with Detached show ?thesis by (simp add: detached_inactive_def)
qed

lemma inactive_get_socket:
  "detached_inactive s \<Longrightarrow> get_socket (Detached i) s = Some w \<Longrightarrow> \<not> active w"
  by (auto simp add: detached_inactive_def list_all_length split: if_splits)

lemma inactive_step: "detached_inactive s \<Longrightarrow> detached_inactive (step e s)"
proof (cases e)
  case (TokenEffect tok)
  assume "detached_inactive s"
  then have "detached_inactive (s\<lparr>token := tok\<rparr>)" by (simp add: detached_inactive_def)
  then show ?thesis using TokenEffect by (simp add: inactive_tokenEffect)
next
  case (TimerFires i)
  assume "detached_inactive s"
  then have "detached_inactive (s\<lparr>timers := take i (timers s) @ drop (Suc i) (timers s)\<rparr>)"
    by (simp add: detached_inactive_def)
  then show ?thesis using TimerFires \<open>detached_inactive s\<close>
    by (simp add: inactive_connectWebSocket)
next
  case (WsOpen ref)
  assume a: "detached_inactive s"
  show ?thesis
  proof (cases "get_socket ref s")
    case None
    with WsOpen a show ?thesis by simp
  next
    case (Some w)
    show ?thesis
    proof (cases "readyState w = CONNECTING")
      case False
      with WsOpen Some a show ?thesis by simp
    next
      case True
      then have "active w" by (simp add: active_def)
      then have "ref = Global"
        using inactive_get_socket [OF a] Some by (cases ref) auto
      then have "detached_inactive (set_socket ref (w\<lparr>readyState := OPEN\<rparr>) s)"
        using a by (intro inactive_set_socket) simp_all
      then have "detached_inactive (onopen_begin (set_socket ref (w\<lparr>readyState := OPEN\<rparr>) s))"
        by (simp add: detached_inactive_def detached_onopen_begin)
      with WsOpen Some True show ?thesis by simp
    qed
  qed
next
  case (SessionFetched r)
  assume "detached_inactive s"
  then show ?thesis using SessionFetched
    by (simp add: detached_inactive_def detached_onopen_resume)
next
  case (WsMessage ref ev)
  assume "detached_inactive s"
  then show ?thesis using WsMessage
    by (simp add: detached_inactive_def detached_onmessage split: option.splits)
next
  case (WsClosed ref failed code)
  assume a: "detached_inactive s"
  show ?thesis
  proof (cases "get_socket ref s")
    case None
    with WsClosed a show ?thesis by simp
  next
    case (Some w)
    have "\<not> active (w\<lparr>readyState := CLOSED\<rparr>)" by (simp add: active_def)
    then have "detached_inactive (set_socket ref (w\<lparr>readyState := CLOSED\<rparr>) s)"
      using a by (simp add: inactive_set_socket)
    then have "detached_inactive
        (onclose (closure_token w) code
          (if failed then onerror (set_socket ref (w\<lparr>readyState := CLOSED\<rparr>) s)
           else set_socket ref (w\<lparr>readyState := CLOSED\<rparr>) s))"
      by (simp add: detached_inactive_def detached_onclose detached_onerror)
    with WsClosed Some a show ?thesis by (simp add: Let_def)
  qed
next
  case (ProfileLoaded b)
  assume "detached_inactive s"
  then show ?thesis using ProfileLoaded by (simp add: detached_inactive_def)
next
  case (ClickStart outcome)
  assume "detached_inactive s"
  then show ?thesis using ClickStart
    by (simp add: detached_inactive_def detached_startRecording)
next
  case ClickStop
  assume "detached_inactive s"
  then show ?thesis using ClickStop
    by (simp add: detached_inactive_def detached_stopRecording)
next
  case (AudioChunk data)
  assume "detached_inactive s"
  then show ?thesis using AudioChunk
    by (simp add: detached_inactive_def detached_port_onmessage)
next
  case (ClickGenerate outcome)
  assume "detached_inactive s"
  then show ?thesis using ClickGenerate
    by (simp add: detached_inactive_def detached_generate_onClick)
next
  case ClickLogout
  assume "detached_inactive s"
  then show ?thesis using ClickLogout by (simp add: inactive_logout_onClick)
qed

lemma inactive_run: "detached_inactive s \<Longrightarrow> detached_inactive (run es s)"
  by (induction es arbitrary: s) (simp_all add: inactive_step)

lemma inactive_initial_state: "detached_inactive initial_state"
  by (simp add: detached_inactive_def initial_state_def)

lemma inactive_at_most_one:
  "detached_inactive s \<Longrightarrow> length (filter active (handles s)) \<le> 1"
proof -
  assume "detached_inactive s"
  then have "filter active (detached s) = []"
    by (simp add: detached_inactive_def list_all_iff filter_empty_conv)
  then show ?thesis
    by (simp add: handles_def split: option.splits)
qed

lemma connectWebSocket_active_noop: "handle_active s \<Longrightarrow> connectWebSocket tok s = s"
  by (simp add: connectWebSocket_def)

lemma connectWebSocket_result:
  "connectWebSocket tok s = s \<or> handle_active (connectWebSocket tok s)"
  by (simp add: connectWebSocket_def handle_active_def split: option.splits)

text \<open>
  C6. \<open>connectWebSocket\<close> is idempotent. In every state in which the current handle is
  connecting or open, calling it is a no-op; without a token (\<open>null\<close> or the empty
  string) it returns without any effect; calling it twice in a row gives what calling it
  once gives. No new handle is created beside an active one: after every sequence of
  events from the initial state, and after a further call of \<open>connectWebSocket\<close>, at
  most one of the sockets that exist is connecting or open.
\<close>

theorem connectWebSocket_idempotent:
  "(handle_active s \<longrightarrow> connectWebSocket tok s = s)
   \<and> connectWebSocket None s = s
   \<and> connectWebSocket (Some []) s = s
   \<and> connectWebSocket tok (connectWebSocket tok s) = connectWebSocket tok s
   \<and> length (filter active (handles (run es initial_state))) \<le> 1
   \<and> length (filter active (handles (connectWebSocket tok (run es initial_state)))) \<le> 1"
proof -
  have a: "handle_active s \<longrightarrow> connectWebSocket tok s = s"
    by (simp add: connectWebSocket_active_noop)
  have b: "connectWebSocket None s = s" "connectWebSocket (Some []) s = s"
    by (simp_all add: connectWebSocket_def)
  have c: "connectWebSocket tok (connectWebSocket tok s) = connectWebSocket tok s"
    using connectWebSocket_result [of tok s] connectWebSocket_active_noop by auto
  have i: "detached_inactive (run es initial_state)"
    by (simp add: inactive_run inactive_initial_state)
  have d: "length (filter active (handles (run es initial_state))) \<le> 1"
    using i by (rule inactive_at_most_one)
  have e: "length (filter active (handles (connectWebSocket tok (run es initial_state)))) \<le> 1"
    using i by (intro inactive_at_most_one inactive_connectWebSocket)
  show ?thesis using a b c d e by blast
qed

theorem connectWebSocket_idempotent_witness:
  "handle_active (run [TokenEffect (Some ''T1'')] initial_state)
   \<and> connectWebSocket (Some ''T2'') (run [TokenEffect (Some ''T1'')] initial_state)
       = run [TokenEffect (Some ''T1'')] initial_state
   \<and> handles (run [TokenEffect (Some ''T1'')] initial_state)
       = [\<lparr>readyState = CONNECTING, closure_token = ''T1'', sent = []\<rparr>]
   \<and> length (filter active (handles (run (reconnect_while_recording @ [TimerFires 0])
         initial_state))) \<le> 1"
  using connectWebSocket_idempotent
          [of "run [TokenEffect (Some ''T1'')] initial_state" "Some ''T2''"
              "reconnect_while_recording @ [TimerFires 0]"]
  by (simp add: handles_def handler_defs)

subsection \<open>Inbound messages\<close>

text \<open>
  C7. For every inbound message of type \<open>transcription\<close> with text \<open>t\<close>, the full
  transcript becomes the previous full transcript, followed by one space, followed by
  \<open>t\<close>. In particular, when after a first connection with the token \<open>T1\<close> the server
  sends \<open>{type: "transcription", text: "hello"}\<close>, the full transcript, empty before,
  is \<open>" hello"\<close>.
\<close>

theorem onmessage_transcription_appends:
  "allTranscript (onmessage (Parsed \<lparr>msg_type = Some ''transcription'', msg_text = Some t,
       msg_message = m\<rparr>) s) = allTranscript s @ '' '' @ t
   \<and> allTranscript (run (first_connection
         @ [WsMessage Global (Parsed \<lparr>msg_type = Some ''transcription'',
              msg_text = Some ''hello'', msg_message = None\<rparr>)]) initial_state) = '' hello''
   \<and> handles (run (first_connection
         @ [WsMessage Global (Parsed \<lparr>msg_type = Some ''transcription'',
              msg_text = Some ''hello'', msg_message = None\<rparr>)]) initial_state)
       = [\<lparr>readyState = OPEN, closure_token = ''T1'', sent = [AuthFrame ''T1'']\<rparr>]"
  by (simp add: first_connection_def handles_def handler_defs)

theorem onmessage_transcription_appends_witness:
  "allTranscript (onmessage (Parsed \<lparr>msg_type = Some ''transcription'',
       msg_text = Some ''hello'', msg_message = None\<rparr>) initial_state) = '' hello''"
  using onmessage_transcription_appends [of "''hello''" None initial_state]
  by (simp add: initial_state_def)

lemma onmessage_immediate:
  "onmessage (immediate_message x) s = s\<lparr>immediate := x\<rparr>"
  by (simp add: onmessage_def immediate_message_def)

text \<open>
  C8. After every non-empty sequence of inbound messages of type \<open>immediate\<close>, the
  \<open>immediate\<close> field is exactly the text of the last of them, whatever it was before:
  each message replaces the field, none appends to it.
\<close>

theorem onmessage_immediate_replaces:
  "xs \<noteq> [] \<Longrightarrow>
   immediate (foldl (\<lambda>s x. onmessage (immediate_message x) s) s xs) = last xs"
proof (induction xs arbitrary: s)
  case Nil
  then show ?case by simp
next
  case (Cons x xs)
  show ?case
  proof (cases "xs = []")
    case True
    then show ?thesis by (simp add: onmessage_immediate)
  next
    case False
    then show ?thesis using Cons.IH [of "onmessage (immediate_message x) s"] by simp
  qed
qed

text \<open>After \<open>"a"\<close> and then \<open>"ab"\<close> the field is \<open>"ab"\<close>.\<close>

theorem onmessage_immediate_replaces_witness:
  "immediate (foldl (\<lambda>s x. onmessage (immediate_message x) s) initial_state
       [Some ''a'', Some ''ab''])
     = Some ''ab''"
  using onmessage_immediate_replaces [of "[Some ''a'', Some ''ab'']" initial_state]
  by simp

subsection \<open>Summary generation\<close>

text \<open>
  C9. Summary generation requires a non-empty full transcript: with an empty one the
  button is disabled and nothing happens. With a non-empty transcript and a token, a
  successful request replaces the summary with the returned text and triggers the profile
  refresh, which reloads the balance; every failure of the request (the fetch rejects,
  the response is not ok, the body is not JSON) shows an error and leaves the summary as
  it was. The full transcript is never changed.
\<close>

theorem generateMinutes_outcomes:
  "(allTranscript s = [] \<longrightarrow> generate_onClick outcome s = s)
   \<and> (allTranscript s \<noteq> [] \<and> truthy (token s) \<longrightarrow>
        generate_onClick (ResponseOk m) s
          = (emit [PostGenerateMinutes (allTranscript s), FetchProfile,
                   Toast MinutesSuccessToast] s)\<lparr>minutes := m\<rparr>)
   \<and> (allTranscript s \<noteq> [] \<and> truthy (token s)
        \<and> outcome \<in> {FetchRejected, ResponseNotOk, JsonRejected} \<longrightarrow>
        generate_onClick outcome s
          = emit [PostGenerateMinutes (allTranscript s), ConsoleError,
                  Toast MinutesErrorToast] s)
   \<and> allTranscript (generate_onClick outcome s) = allTranscript s"
  by (auto simp add: generate_onClick_def generateMinutes_def emit_def Let_def
        split: fetch_outcome.splits)

theorem generateMinutes_outcomes_witness:
  "generate_onClick (ResponseOk (Some ''summary'')) initial_state = initial_state
   \<and> allTranscript (run (first_connection @ [WsMessage Global Unparseable,
         WsMessage Global (Parsed \<lparr>msg_type = Some ''transcription'',
           msg_text = Some ''hello'', msg_message = None\<rparr>)]) initial_state) = '' hello''
   \<and> minutes (generate_onClick (ResponseOk (Some ''summary''))
         (run (first_connection @ [WsMessage Global Unparseable,
           WsMessage Global (Parsed \<lparr>msg_type = Some ''transcription'',
             msg_text = Some ''hello'', msg_message = None\<rparr>)]) initial_state))
       = Some ''summary''
   \<and> minutes (generate_onClick ResponseNotOk
         (run (first_connection @ [WsMessage Global Unparseable,
           WsMessage Global (Parsed \<lparr>msg_type = Some ''transcription'',
             msg_text = Some ''hello'', msg_message = None\<rparr>)]) initial_state))
       = Some []"
  using generateMinutes_outcomes [of initial_state "ResponseOk (Some ''summary'')" None]
        generateMinutes_outcomes
          [of "run (first_connection @ [WsMessage Global Unparseable,
                 WsMessage Global (Parsed \<lparr>msg_type = Some ''transcription'',
                   msg_text = Some ''hello'', msg_message = None\<rparr>)]) initial_state"
              ResponseNotOk "Some ''summary''"]
  by (simp add: first_connection_def handler_defs)

end
